theory Spec2Isabelle
  imports Complex_Main "HOL-Library.Sublist"
begin

section \<open>Fuzzy title matching of the movie agent (tools\_kaggle.py)\<close>

text \<open>
  The development embeds the fuzzy matcher of \<^verbatim>\<open>tools_kaggle.py\<close>: the hand-written
  Levenshtein distance, the lazily loaded movie cache, the hybrid score, the selection of
  the best title, and the catalog tools that take a \<^verbatim>\<open>limit\<close>.

  Conventions of the embedding.
  \<^item> A Python \<^verbatim>\<open>str\<close> is a \<open>string\<close>; a character is a code point below 256, on which
    \<^verbatim>\<open>str.isspace\<close> and \<^verbatim>\<open>str.lower\<close> act character by character as written below.
  \<^item> Python floats are modelled by exact rationals (\<open>rat\<close>): rounding is not modelled.
  \<^item> The module globals \<^verbatim>\<open>_MOVIES_CACHE\<close> and \<^verbatim>\<open>_MOVIES_CACHE_LOADED\<close> are a record that
    every stateful function takes and returns; an exception is a value of type \<open>error\<close>.
\<close>

subsection \<open>Python string primitives\<close>

definition isspace :: "char \<Rightarrow> bool" where
  "isspace c \<longleftrightarrow> c \<in> {CHR 0x09, CHR 0x0A, CHR 0x0B, CHR 0x0C, CHR 0x0D,
                      CHR 0x1C, CHR 0x1D, CHR 0x1E, CHR 0x1F, CHR 0x20, CHR 0x85, CHR 0xA0}"

definition lower_char :: "char \<Rightarrow> char" where
  "lower_char c =
     (let n = (of_char c :: nat)
      in if (65 \<le> n \<and> n \<le> 90) \<or> (192 \<le> n \<and> n \<le> 222 \<and> n \<noteq> 215)
         then char_of (n + 32) else c)"

definition lower :: "string \<Rightarrow> string" where
  "lower s = map lower_char s"

definition strip :: "string \<Rightarrow> string" where
  "strip s = rev (dropWhile isspace (rev (dropWhile isspace s)))"

text \<open>\<^verbatim>\<open>str.split()\<close> without arguments: the maximal runs of non-whitespace characters.\<close>

fun split_from :: "string \<Rightarrow> string \<Rightarrow> string list" where
  "split_from tok [] = (if tok = [] then [] else [tok])"
| "split_from tok (c # cs) =
     (if isspace c then (if tok = [] then split_from [] cs else tok # split_from [] cs)
      else split_from (tok @ [c]) cs)"

definition split :: "string \<Rightarrow> string list" where
  "split s = split_from [] s"

text \<open>\<^verbatim>\<open>_normalize(text)\<close>: \<^verbatim>\<open>(text or "").strip().lower()\<close>.\<close>

definition normalize :: "string \<Rightarrow> string" where
  "normalize text = lower (strip text)"

subsection \<open>Levenshtein distance\<close>

text \<open>
  The inner \<^verbatim>\<open>for j, cb in enumerate(b, start=1)\<close> loop: \<open>bs\<close> is the part of \<open>b\<close> still to
  visit, \<open>j\<close> the current index, \<open>cur_row\<close> the row built so far.
\<close>

fun inner_loop :: "'a \<Rightarrow> nat list \<Rightarrow> 'a list \<Rightarrow> nat \<Rightarrow> nat list \<Rightarrow> nat list" where
  "inner_loop ca prev_row [] j cur_row = cur_row"
| "inner_loop ca prev_row (cb # bs) j cur_row =
     (let insert_cost = cur_row ! (j - 1) + 1;
          delete_cost = prev_row ! j + 1;
          replace_cost = prev_row ! (j - 1) + (if ca = cb then 0 else 1)
      in inner_loop ca prev_row bs (j + 1)
           (cur_row @ [min insert_cost (min delete_cost replace_cost)]))"

text \<open>The outer \<^verbatim>\<open>for i, ca in enumerate(a, start=1)\<close> loop.\<close>

fun outer_loop :: "'a list \<Rightarrow> 'a list \<Rightarrow> nat \<Rightarrow> nat list \<Rightarrow> nat list" where
  "outer_loop [] b i prev_row = prev_row"
| "outer_loop (ca # as) b i prev_row =
     outer_loop as b (i + 1) (inner_loop ca prev_row b 1 [i])"

definition levenshtein :: "'a list \<Rightarrow> 'a list \<Rightarrow> nat" where
  "levenshtein a b =
     (if a = b then 0
      else if a = [] then length b
      else if b = [] then length a
      else last (outer_loop a b 1 [0..<length b + 1]))"

text \<open>
  The textbook recurrence of the edit distance, on the reversed prefixes that the rows of
  the loops stand for. It is the yardstick of the proofs below, not part of the program.
\<close>

fun edit_dist :: "'a list \<Rightarrow> 'a list \<Rightarrow> nat" where
  "edit_dist [] ys = length ys"
| "edit_dist (x # xs) [] = Suc (length xs)"
| "edit_dist (x # xs) (y # ys) =
     min (edit_dist (x # xs) ys + 1)
       (min (edit_dist xs (y # ys) + 1) (edit_dist xs ys + (if x = y then 0 else 1)))"

subsection \<open>The catalog store\<close>

text \<open>
  A row of the table \<^verbatim>\<open>movies\<close>; a column that may hold \<^verbatim>\<open>NULL\<close> is an option. The
  catalog is what \<^verbatim>\<open>_get_connection\<close> and \<^verbatim>\<open>conn.execute\<close> meet: no database file, a
  file without a readable table, or a table.
\<close>

record movie_row =
  Series_Title :: "string option"
  Released_Year :: string
  Genre :: "string option"
  IMDB_Rating :: rat
  Director :: "string option"
  Star1 :: "string option"
  Star2 :: "string option"
  Star3 :: "string option"
  Star4 :: "string option"
  Overview :: "string option"

datatype catalog = NoFile | NoTable | Table "movie_row list"

datatype error = OperationalError | ValueError | OverflowError | TypeError

text \<open>\<^verbatim>\<open>_get_connection()\<close>: \<^verbatim>\<open>None\<close> when the file does not exist.\<close>

definition get_connection :: "catalog \<Rightarrow> catalog option" where
  "get_connection c = (if c = NoFile then None else Some c)"

text \<open>\<^verbatim>\<open>conn.execute(...)\<close> followed by \<^verbatim>\<open>fetchall()\<close>: SQLite raises when the table is missing.\<close>

definition fetch_table :: "catalog \<Rightarrow> error + movie_row list" where
  "fetch_table conn = (case conn of Table rows \<Rightarrow> Inr rows | _ \<Rightarrow> Inl OperationalError)"

definition coalesce :: "string option \<Rightarrow> string" where
  "coalesce v = (case v of None \<Rightarrow> [] | Some s \<Rightarrow> s)"

text \<open>\<^verbatim>\<open>sep.join(parts)\<close>.\<close>

fun join :: "string \<Rightarrow> string list \<Rightarrow> string" where
  "join sep [] = []"
| "join sep [x] = x"
| "join sep (x # y # ys) = x @ sep @ join sep (y # ys)"

subsection \<open>The movie cache\<close>

record entry =
  title :: string
  title_norm :: string
  meta :: string

record index_state =
  movies_cache :: "entry list"
  movies_cache_loaded :: bool

text \<open>The module starts with an empty cache that is not loaded.\<close>

definition initial_state :: index_state where
  "initial_state = \<lparr>movies_cache = [], movies_cache_loaded = False\<rparr>"

text \<open>
  The body of the \<^verbatim>\<open>for row in rows\<close> loop of \<^verbatim>\<open>_load_movies_cache\<close>: the selected columns
  are the title, then the coalesced overview, genre, director and four stars.
\<close>

definition cache_entry :: "movie_row \<Rightarrow> entry" where
  "cache_entry row =
     (let title = coalesce (Series_Title row);
          overview = coalesce (Overview row);
          meta_parts = filter (\<lambda>x. x \<noteq> [])
            (map coalesce [Genre row, Director row, Star1 row, Star2 row, Star3 row, Star4 row]);
          meta_text = join '' '' meta_parts;
          combined_meta = lower (overview @ '' '' @ meta_text)
      in \<lparr>title = title, title_norm = normalize title, meta = combined_meta\<rparr>)"

text \<open>
  \<^verbatim>\<open>_load_movies_cache()\<close>. The result pairs the exception that left the function, if any,
  with the globals after the call: the \<^verbatim>\<open>try ... finally\<close> closes the connection and has
  no \<^verbatim>\<open>except\<close> clause, so an error of the query leaves the function.
\<close>

definition load_movies_cache :: "catalog \<Rightarrow> index_state \<Rightarrow> error option \<times> index_state" where
  "load_movies_cache c s =
     (if movies_cache_loaded s then (None, s)
      else case get_connection c of
        None \<Rightarrow> (None, s\<lparr>movies_cache := [], movies_cache_loaded := True\<rparr>)
      | Some conn \<Rightarrow>
          (case fetch_table conn of
             Inl e \<Rightarrow> (Some e, s)
           | Inr rows \<Rightarrow>
               (None, s\<lparr>movies_cache := map cache_entry rows, movies_cache_loaded := True\<rparr>)))"

subsection \<open>The hybrid score\<close>

text \<open>The local variables of \<^verbatim>\<open>_fuzzy_score\<close>, in the order of the source.\<close>

definition tokens :: "string \<Rightarrow> string set" where
  "tokens s = {tok \<in> set (split s). tok \<noteq> []}"

definition overlap :: "string \<Rightarrow> string \<Rightarrow> nat" where
  "overlap q t = card (tokens q \<inter> tokens t)"

definition meta_hits :: "string \<Rightarrow> string \<Rightarrow> nat" where
  "meta_hits q m = card {tok \<in> tokens q. tok \<noteq> [] \<and> sublist tok m}"

definition base_score :: "string \<Rightarrow> string \<Rightarrow> rat" where
  "base_score q t =
     (let max_len = max (length q) (length t); dist = levenshtein q t
      in 1 - of_nat dist / of_nat max_len)"

text \<open>The score before the two clamping tests.\<close>

definition raw_score :: "string \<Rightarrow> entry \<Rightarrow> rat" where
  "raw_score q item =
     (let token_bonus = (1 / 10) * of_nat (overlap q (title_norm item));
          meta_bonus = (1 / 20) * of_nat (meta_hits q (meta item))
      in base_score q (title_norm item) + token_bonus + meta_bonus)"

definition fuzzy_score :: "string \<Rightarrow> entry \<Rightarrow> rat" where
  "fuzzy_score query_norm item =
     (let q = query_norm; t = title_norm item
      in if q = [] \<or> t = [] then 0
         else let score = raw_score q item;
                  score = (if score < 0 then 0 else score);
                  score = (if score > 3 / 2 then 3 / 2 else score)
              in score)"



subsection \<open>The best title\<close>

text \<open>The \<^verbatim>\<open>for item in _MOVIES_CACHE\<close> loop, on the pair \<open>(best_title, best_score)\<close>.\<close>

fun scan :: "string \<Rightarrow> entry list \<Rightarrow> string option \<times> rat \<Rightarrow> string option \<times> rat" where
  "scan q_norm [] best = best"
| "scan q_norm (item # items) (best_title, best_score) =
     (let score = fuzzy_score q_norm item
      in if score > best_score then scan q_norm items (Some (title item), score)
         else scan q_norm items (best_title, best_score))"

definition fuzzy_find_best_title ::
    "catalog \<Rightarrow> index_state \<Rightarrow> string \<Rightarrow> (error + string option) \<times> index_state" where
  "fuzzy_find_best_title c s query =
     (case load_movies_cache c s of
        (Some e, s') \<Rightarrow> (Inl e, s')
      | (None, s') \<Rightarrow>
          (Inr (if movies_cache s' = [] then None
                else let q_norm = normalize query
                     in if q_norm = [] then None
                        else case scan q_norm (movies_cache s') (None, 0) of
                          (best_title, best_score) \<Rightarrow>
                            if best_score < 6 / 10 then None else best_title),
           s'))"


subsection \<open>The catalog tools that take a limit\<close>

text \<open>
  A \<^verbatim>\<open>limit\<close> reaches a tool as a Python value: an integer, or a string when the caller
  passes one. \<^verbatim>\<open>int(limit)\<close> returns an integer unchanged and reads a string as an optional
  sign and decimal digits, with single underscores allowed between digits and whitespace
  allowed around; anything else raises \<^verbatim>\<open>ValueError\<close>.
\<close>

datatype pyval = PyInt int | PyStr string

definition is_digit :: "char \<Rightarrow> bool" where
  "is_digit c \<longleftrightarrow> c \<in> set ''0123456789''"

definition digit_value :: "char \<Rightarrow> nat" where
  "digit_value c = of_char c - 48"

fun digits_value :: "nat \<Rightarrow> string \<Rightarrow> nat option" where
  "digits_value acc [] = Some acc"
| "digits_value acc [c] = (if is_digit c then Some (10 * acc + digit_value c) else None)"
| "digits_value acc (c # d # ds) =
     (if is_digit c then digits_value (10 * acc + digit_value c) (d # ds)
      else if c = CHR ''_'' \<and> is_digit d then digits_value (10 * acc + digit_value d) ds
      else None)"

definition parse_decimal :: "string \<Rightarrow> nat option" where
  "parse_decimal s =
     (case s of [] \<Rightarrow> None
      | c # cs \<Rightarrow> if is_digit c then digits_value (digit_value c) cs else None)"

definition py_int :: "pyval \<Rightarrow> error + int" where
  "py_int v =
     (case v of
        PyInt n \<Rightarrow> Inr n
      | PyStr s \<Rightarrow>
          (let t = strip s;
               negative = (t \<noteq> [] \<and> hd t = CHR ''-'');
               signed = (t \<noteq> [] \<and> (hd t = CHR ''-'' \<or> hd t = CHR ''+''));
               body = (if signed then tl t else t)
           in case parse_decimal body of
                None \<Rightarrow> Inl ValueError
              | Some n \<Rightarrow> Inr (if negative then - int n else int n)))"

text \<open>
  What SQLite does with the queries of the tools: \<^verbatim>\<open>lower()\<close> folds the ASCII letters,
  \<^verbatim>\<open>LIKE\<close> matches \<^verbatim>\<open>%\<close> with any run of characters and \<^verbatim>\<open>_\<close> with any one character and
  ignores the case of ASCII letters, \<^verbatim>\<open>ORDER BY IMDB_Rating DESC\<close> sorts, a negative \<^verbatim>\<open>LIMIT\<close>
  is no limit, and a bound integer must fit 64 bits.
\<close>

definition sqlite_lower_char :: "char \<Rightarrow> char" where
  "sqlite_lower_char c =
     (let n = (of_char c :: nat) in if 65 \<le> n \<and> n \<le> 90 then char_of (n + 32) else c)"

definition sqlite_lower :: "string \<Rightarrow> string" where
  "sqlite_lower s = map sqlite_lower_char s"

fun like :: "string \<Rightarrow> string \<Rightarrow> bool" where
  "like [] v = (v = [])"
| "like (p # ps) [] = (p = CHR ''%'' \<and> like ps [])"
| "like (p # ps) (c # cs) =
     (if p = CHR ''%'' then like ps (c # cs) \<or> like (p # ps) cs
      else if p = CHR ''_'' then like ps cs
      else sqlite_lower_char p = sqlite_lower_char c \<and> like ps cs)"

definition order_by_rating_desc :: "movie_row list \<Rightarrow> movie_row list" where
  "order_by_rating_desc rows = sort_key (\<lambda>r. - IMDB_Rating r) rows"

definition sql_limit :: "int \<Rightarrow> 'a list \<Rightarrow> 'a list" where
  "sql_limit n rows = (if n < 0 then rows else take (nat n) rows)"

definition bind_integer :: "int \<Rightarrow> error + int" where
  "bind_integer n = (if - (2 ^ 63) \<le> n \<and> n < 2 ^ 63 then Inr n else Inl OverflowError)"

text \<open>
  The result of a tool is one of its three messages; the text of a message is not
  modelled, only the rows it prints.
\<close>

datatype 'r tool_output =
    Unavailable_message
  | Not_found_message string
  | Movie_lines string "'r list"

text \<open>
  \<^verbatim>\<open>kaggle_movies_with_actor(actor, limit)\<close>. The arguments of \<^verbatim>\<open>conn.execute\<close>, and so
  \<^verbatim>\<open>int(limit)\<close>, are evaluated before the query runs and after the connection is tested.
\<close>

definition kaggle_movies_with_actor ::
    "catalog \<Rightarrow> string \<Rightarrow> pyval \<Rightarrow> error + (string option \<times> string \<times> rat) tool_output" where
  "kaggle_movies_with_actor c actor limit =
     (case get_connection c of
        None \<Rightarrow> Inr Unavailable_message
      | Some conn \<Rightarrow>
          (let norm = normalize actor; pat = ''%'' @ norm @ ''%''
           in case py_int limit of
                Inl e \<Rightarrow> Inl e
              | Inr n \<Rightarrow>
                  (case fetch_table conn of
                     Inl e \<Rightarrow> Inl e
                   | Inr table \<Rightarrow>
                       (case bind_integer n of
                          Inl e \<Rightarrow> Inl e
                        | Inr n \<Rightarrow>
                            (let matched = filter (\<lambda>r.
                                   like pat (sqlite_lower (coalesce (Star1 r)))
                                   \<or> like pat (sqlite_lower (coalesce (Star2 r)))
                                   \<or> like pat (sqlite_lower (coalesce (Star3 r)))
                                   \<or> like pat (sqlite_lower (coalesce (Star4 r)))) table;
                                 rows = map (\<lambda>r. (Series_Title r, Released_Year r, IMDB_Rating r))
                                   (sql_limit n (order_by_rating_desc matched))
                             in if rows = [] then Inr (Not_found_message actor)
                                else Inr (Movie_lines actor rows))))))"

text \<open>\<^verbatim>\<open>kaggle_top_by_genre(genre, limit)\<close>.\<close>

definition kaggle_top_by_genre ::
    "catalog \<Rightarrow> string \<Rightarrow> pyval \<Rightarrow> error + (string option \<times> string \<times> rat) tool_output" where
  "kaggle_top_by_genre c genre limit =
     (case get_connection c of
        None \<Rightarrow> Inr Unavailable_message
      | Some conn \<Rightarrow>
          (let norm = normalize genre; pat = ''%'' @ norm @ ''%''
           in case py_int limit of
                Inl e \<Rightarrow> Inl e
              | Inr n \<Rightarrow>
                  (case fetch_table conn of
                     Inl e \<Rightarrow> Inl e
                   | Inr table \<Rightarrow>
                       (case bind_integer n of
                          Inl e \<Rightarrow> Inl e
                        | Inr n \<Rightarrow>
                            (let matched = filter (\<lambda>r.
                                   like pat (sqlite_lower (coalesce (Genre r)))) table;
                                 rows = map (\<lambda>r. (Series_Title r, Released_Year r, IMDB_Rating r))
                                   (sql_limit n (order_by_rating_desc matched))
                             in if rows = [] then Inr (Not_found_message genre)
                                else Inr (Movie_lines genre rows))))))"

text \<open>
  \<^verbatim>\<open>kaggle_search_by_keyword(keyword, limit)\<close>: no ordering, and \<^verbatim>\<open>overview[:150]\<close> raises
  on a row whose overview is \<^verbatim>\<open>NULL\<close>.
\<close>

definition kaggle_search_by_keyword ::
    "catalog \<Rightarrow> string \<Rightarrow> pyval \<Rightarrow> error + (string option \<times> string) tool_output" where
  "kaggle_search_by_keyword c keyword limit =
     (case get_connection c of
        None \<Rightarrow> Inr Unavailable_message
      | Some conn \<Rightarrow>
          (let norm = normalize keyword; pat = ''%'' @ norm @ ''%''
           in case py_int limit of
                Inl e \<Rightarrow> Inl e
              | Inr n \<Rightarrow>
                  (case fetch_table conn of
                     Inl e \<Rightarrow> Inl e
                   | Inr table \<Rightarrow>
                       (case bind_integer n of
                          Inl e \<Rightarrow> Inl e
                        | Inr n \<Rightarrow>
                            (let matched = filter (\<lambda>r.
                                   like pat (sqlite_lower (coalesce (Overview r)))) table;
                                 rows = sql_limit n matched
                             in if rows = [] then Inr (Not_found_message keyword)
                                else if \<exists>r\<in>set rows. Overview r = None then Inl TypeError
                                else Inr (Movie_lines keyword
                                  (map (\<lambda>r. (Series_Title r, take 150 (coalesce (Overview r))))
                                     rows)))))))"

subsection \<open>Example data\<close>

text \<open>The catalog of the scenario of the specification, and three more rows.\<close>

definition inception_row :: movie_row where
  "inception_row =
     \<lparr>Series_Title = Some ''Inception'', Released_Year = ''2010'', Genre = Some ''Sci-Fi'',
      IMDB_Rating = 88 / 10, Director = Some ''Christopher Nolan'',
      Star1 = Some ''Leonardo DiCaprio'', Star2 = None, Star3 = None, Star4 = None,
      Overview = Some ''A thief who steals secrets via dreams''\<rparr>"

definition departed_row :: movie_row where
  "departed_row =
     \<lparr>Series_Title = Some ''The Departed'', Released_Year = ''2006'', Genre = Some ''Crime'',
      IMDB_Rating = 85 / 10, Director = Some ''Martin Scorsese'',
      Star1 = Some ''Leonardo DiCaprio'', Star2 = Some ''Matt Damon'', Star3 = None,
      Star4 = None, Overview = Some ''An undercover cop and a mole''\<rparr>"

definition shutter_row :: movie_row where
  "shutter_row =
     \<lparr>Series_Title = Some ''Shutter Island'', Released_Year = ''2010'', Genre = Some ''Mystery'',
      IMDB_Rating = 82 / 10, Director = Some ''Martin Scorsese'',
      Star1 = Some ''Leonardo DiCaprio'', Star2 = None, Star3 = None, Star4 = None,
      Overview = None\<rparr>"

definition django_row :: movie_row where
  "django_row =
     \<lparr>Series_Title = Some ''Django Unchained'', Released_Year = ''2012'', Genre = Some ''Western'',
      IMDB_Rating = 84 / 10, Director = Some ''Quentin Tarantino'',
      Star1 = Some ''Jamie Foxx'', Star2 = Some ''Christoph Waltz'',
      Star3 = Some ''Leonardo DiCaprio'', Star4 = None,
      Overview = Some ''A freed slave sets out to rescue his wife''\<rparr>"

definition example_rows :: "movie_row list" where
  "example_rows = [shutter_row, inception_row, django_row, departed_row]"



text \<open>An entry whose search text holds the tokens of one query and not of the other.\<close>

definition ab_entry :: entry where
  "ab_entry = \<lparr>title = ''Ab'', title_norm = ''ab'', meta = ''pqrb''\<rparr>"

subsection \<open>Properties of the Levenshtein distance\<close>

lemma edit_dist_Nil_right: "edit_dist xs [] = length xs"
  by (cases xs) simp_all

lemma edit_dist_refl: "edit_dist xs xs = 0"
  by (induction xs) simp_all

lemma edit_dist_sym: "edit_dist xs ys = edit_dist ys xs"
proof (induction xs ys rule: edit_dist.induct)
  case (1 ys)
  show ?case by (simp add: edit_dist_Nil_right)
next
  case (2 x xs)
  show ?case by simp
next
  case (3 x xs y ys)
  then show ?case by (simp add: min.commute min.left_commute eq_commute)
qed

lemma edit_dist_le_max: "edit_dist xs ys \<le> max (length xs) (length ys)"
proof (induction xs ys rule: edit_dist.induct)
  case (3 x xs y ys)
  have "edit_dist (x # xs) (y # ys) \<le> edit_dist xs ys + 1"
    by (simp add: min.coboundedI2)
  with 3(3) show ?case by simp
qed simp_all

text \<open>
  Row \<open>i\<close> of the loops holds the distances between the first \<open>i\<close> characters of \<open>a\<close> and
  every prefix of \<open>b\<close>. The proofs also show that every index read by the loops is in
  range: a read out of range would leave the row unknown.
\<close>

lemma inner_loop_rows:
  assumes "prev_row = map (\<lambda>j. edit_dist xs (rev (take j (b1 @ b2)))) [0..<length (b1 @ b2) + 1]"
    and "cur_row = map (\<lambda>j. edit_dist (ca # xs) (rev (take j b1))) [0..<length b1 + 1]"
  shows "inner_loop ca prev_row b2 (length b1 + 1) cur_row =
           map (\<lambda>j. edit_dist (ca # xs) (rev (take j (b1 @ b2)))) [0..<length (b1 @ b2) + 1]"
  using assms
proof (induction b2 arbitrary: b1 cur_row)
  case Nil
  then show ?case by simp
next
  case (Cons cb bs)
  let ?n = "length b1"
  have c: "cur_row ! ?n = edit_dist (ca # xs) (rev b1)"
    using Cons.prems(2) by (simp add: nth_append)
  have p1: "prev_row ! (?n + 1) = edit_dist xs (cb # rev b1)"
    using Cons.prems(1) by (simp del: upt_Suc add: nth_append)
  have p0: "prev_row ! ?n = edit_dist xs (rev b1)"
    using Cons.prems(1) by (simp del: upt_Suc add: nth_append)
  let ?v = "min (cur_row ! ?n + 1) (min (prev_row ! (?n + 1) + 1) (prev_row ! ?n + (if ca = cb then 0 else 1)))"
  have v: "?v = edit_dist (ca # xs) (rev (b1 @ [cb]))"
    using c p1 p0 by simp
  have cur': "cur_row @ [?v] = map (\<lambda>j. edit_dist (ca # xs) (rev (take j (b1 @ [cb])))) [0..<length (b1 @ [cb]) + 1]"
    using Cons.prems(2) v by simp
  have prev': "prev_row = map (\<lambda>j. edit_dist xs (rev (take j ((b1 @ [cb]) @ bs)))) [0..<length ((b1 @ [cb]) @ bs) + 1]"
    using Cons.prems(1) by simp
  have "inner_loop ca prev_row (cb # bs) (?n + 1) cur_row = inner_loop ca prev_row bs (length (b1 @ [cb]) + 1) (cur_row @ [?v])"
    by (simp add: Let_def)
  also have "\<dots> = map (\<lambda>j. edit_dist (ca # xs) (rev (take j ((b1 @ [cb]) @ bs)))) [0..<length ((b1 @ [cb]) @ bs) + 1]"
    by (rule Cons.IH[OF prev' cur'])
  finally show ?case by simp
qed

lemma first_row: "[0..<length b + 1] = map (\<lambda>j. edit_dist [] (rev (take j b))) [0..<length b + 1]"
  by (rule nth_equalityI) (simp_all del: upt_Suc)

lemma outer_loop_rows:
  assumes "prev_row = map (\<lambda>j. edit_dist (rev a1) (rev (take j b))) [0..<length b + 1]"
  shows "outer_loop a2 b (length a1 + 1) prev_row =
           map (\<lambda>j. edit_dist (rev (a1 @ a2)) (rev (take j b))) [0..<length b + 1]"
  using assms
proof (induction a2 arbitrary: a1 prev_row)
  case Nil
  then show ?case by simp
next
  case (Cons ca as)
  have row: "inner_loop ca prev_row b (length ([]::'a list) + 1) [length a1 + 1] =
      map (\<lambda>j. edit_dist (ca # rev a1) (rev (take j ([] @ b)))) [0..<length ([] @ b) + 1]"
    by (rule inner_loop_rows) (simp_all add: Cons.prems)
  then have row': "inner_loop ca prev_row b 1 [length a1 + 1] =
      map (\<lambda>j. edit_dist (rev (a1 @ [ca])) (rev (take j b))) [0..<length b + 1]"
    by simp
  have "outer_loop (ca # as) b (length a1 + 1) prev_row =
      outer_loop as b (length (a1 @ [ca]) + 1) (inner_loop ca prev_row b 1 [length a1 + 1])"
    by simp
  also have "\<dots> = map (\<lambda>j. edit_dist (rev ((a1 @ [ca]) @ as)) (rev (take j b))) [0..<length b + 1]"
    by (rule Cons.IH[OF row'])
  finally show ?case by simp
qed

lemma levenshtein_edit_dist: "levenshtein a b = edit_dist (rev a) (rev b)"
proof -
  have "outer_loop a b (length ([]::'a list) + 1) [0..<length b + 1] =
      map (\<lambda>j. edit_dist (rev ([] @ a)) (rev (take j b))) [0..<length b + 1]"
    by (rule outer_loop_rows) (use first_row in simp)
  then have "last (outer_loop a b 1 [0..<length b + 1]) = edit_dist (rev a) (rev b)"
    by (simp add: last_map)
  then show ?thesis
    by (simp add: levenshtein_def edit_dist_refl edit_dist_Nil_right)
qed

text \<open>
  Claim C5. The Levenshtein implementation returns 0 on equal arguments, the length of the
  other argument when one argument is empty, and is symmetric.
\<close>

theorem levenshtein_laws:
  "levenshtein a a = 0 \<and> levenshtein [] a = length a \<and> levenshtein a [] = length a
     \<and> levenshtein a b = levenshtein b a"
proof -
  have "levenshtein a b = levenshtein b a"
    by (simp add: levenshtein_edit_dist edit_dist_sym)
  then show ?thesis
    by (simp add: levenshtein_def)
qed

subsection \<open>Properties of the score\<close>




lemma levenshtein_le_max: "levenshtein a b \<le> max (length a) (length b)"
  using edit_dist_le_max [of "rev a" "rev b"] by (simp add: levenshtein_edit_dist)

lemma base_score_nonneg:
  assumes "q \<noteq> [] \<or> t \<noteq> []"
  shows "0 \<le> base_score q t"
proof -
  let ?m = "max (length q) (length t)"
  have pos: "0 < ?m" using assms by (auto simp: max_def)
  have "(of_nat (levenshtein q t) :: rat) \<le> of_nat ?m"
    using levenshtein_le_max [of q t] by (simp only: of_nat_le_iff)
  then have "(of_nat (levenshtein q t) :: rat) / of_nat ?m \<le> 1"
    using pos by (simp add: divide_le_eq_1)
  then show ?thesis by (simp add: base_score_def Let_def)
qed

lemma raw_score_nonneg:
  assumes "q \<noteq> [] \<or> title_norm item \<noteq> []"
  shows "0 \<le> raw_score q item"
  using base_score_nonneg [OF assms] by (simp add: raw_score_def Let_def)

lemma fuzzy_score_raw:
  "q \<noteq> [] \<Longrightarrow> title_norm item \<noteq> [] \<Longrightarrow> fuzzy_score q item = min (3 / 2) (raw_score q item)"
  using raw_score_nonneg [of q item] by (simp add: fuzzy_score_def Let_def min_def)

lemma fuzzy_score_bounds: "0 \<le> fuzzy_score q item \<and> fuzzy_score q item \<le> 3 / 2"
  by (simp add: fuzzy_score_def Let_def)


text \<open>
  Claim C10. The score lies in \<open>[0, 1.5]\<close>. The Levenshtein distance never exceeds the longer
  of the two lengths, so for non-empty strings the base component and the score before
  clamping are non-negative: the test \<open>score < 0\<close> never succeeds.
\<close>

theorem fuzzy_score_range:
  "0 \<le> fuzzy_score q item \<and> fuzzy_score q item \<le> 3 / 2
   \<and> levenshtein q (title_norm item) \<le> max (length q) (length (title_norm item))
   \<and> (q \<noteq> [] \<and> title_norm item \<noteq> [] \<longrightarrow>
        0 \<le> base_score q (title_norm item) \<and> \<not> raw_score q item < 0)"
  using fuzzy_score_bounds [of q item] levenshtein_le_max [of q "title_norm item"]
    base_score_nonneg [of q "title_norm item"] raw_score_nonneg [of q item]
  by (simp add: not_less)

theorem fuzzy_score_range_witness:
  "''ab'' \<noteq> [] \<and> title_norm \<lparr>title = ''Ab'', title_norm = ''ab'', meta = ''x''\<rparr> \<noteq> []
   \<and> 0 \<le> base_score ''ab'' (title_norm \<lparr>title = ''Ab'', title_norm = ''ab'', meta = ''x''\<rparr>)
   \<and> \<not> raw_score ''ab'' \<lparr>title = ''Ab'', title_norm = ''ab'', meta = ''x''\<rparr> < 0"
  using fuzzy_score_range [of "''ab''" "\<lparr>title = ''Ab'', title_norm = ''ab'', meta = ''x''\<rparr>"]
  by simp

subsection \<open>Properties of the scan\<close>






subsection \<open>Properties of the matcher\<close>









text \<open>
  Claim C4, amended. For a query that is empty after trimming and lower-casing, the matcher
  still runs the load step first: the state after the call is the state the load step
  leaves, so an index that was not loaded is built. The result is absent whenever the load
  step returns, whatever the index holds; with an index that is already loaded the call
  returns absent and changes nothing.
\<close>

theorem empty_query_absent:
  assumes "normalize query = []"
  shows "snd (fuzzy_find_best_title c s query) = snd (load_movies_cache c s)
    \<and> (fst (load_movies_cache c s) = None \<longrightarrow> fst (fuzzy_find_best_title c s query) = Inr None)
    \<and> (movies_cache_loaded s \<longrightarrow> fuzzy_find_best_title c s query = (Inr None, s))"
proof -
  obtain r s' where l: "load_movies_cache c s = (r, s')" by (cases "load_movies_cache c s")
  have a: "snd (fuzzy_find_best_title c s query) = s'"
    using l by (cases r) (simp_all add: fuzzy_find_best_title_def)
  have b: "fst (fuzzy_find_best_title c s query) = Inr None" if "r = None"
    using l that assms by (simp add: fuzzy_find_best_title_def Let_def)
  have c: "fuzzy_find_best_title c s query = (Inr None, s)" if "movies_cache_loaded s"
    using that assms by (simp add: fuzzy_find_best_title_def load_movies_cache_def Let_def)
  from a b c l show ?thesis by simp
qed

theorem empty_query_absent_witness:
  "normalize ''  '' = []
   \<and> fst (load_movies_cache (Table [inception_row]) initial_state) = None
   \<and> fst (fuzzy_find_best_title (Table [inception_row]) initial_state ''  '') = Inr None
   \<and> movies_cache_loaded \<lparr>movies_cache = [cache_entry inception_row], movies_cache_loaded = True\<rparr>
   \<and> fuzzy_find_best_title NoFile
        \<lparr>movies_cache = [cache_entry inception_row], movies_cache_loaded = True\<rparr> ''  ''
       = (Inr None, \<lparr>movies_cache = [cache_entry inception_row], movies_cache_loaded = True\<rparr>)"
proof -
  have n: "normalize ''  '' = []" by code_simp
  have l: "fst (load_movies_cache (Table [inception_row]) initial_state) = None"
    by (simp add: load_movies_cache_def initial_state_def get_connection_def fetch_table_def)
  from empty_query_absent [OF n, of "Table [inception_row]" initial_state]
    empty_query_absent [OF n, of NoFile
      "\<lparr>movies_cache = [cache_entry inception_row], movies_cache_loaded = True\<rparr>"]
    n l show ?thesis by simp
qed

theorem empty_query_builds_index:
  "normalize [] = []
   \<and> movies_cache initial_state = []
   \<and> fuzzy_find_best_title (Table [inception_row]) initial_state []
       = (Inr None, \<lparr>movies_cache = [cache_entry inception_row], movies_cache_loaded = True\<rparr>)
   \<and> fuzzy_find_best_title NoTable initial_state [] = (Inl OperationalError, initial_state)"
  by (simp add: fuzzy_find_best_title_def load_movies_cache_def initial_state_def
      get_connection_def fetch_table_def normalize_def lower_def strip_def)

text \<open>
  Claim C6, amended. For an entry and two queries at the same edit distance from its
  normalized title and with the same maximum length, the query that shares at least as many
  tokens with the title never scores lower, provided it also has at least as many of its
  tokens in the search text of the entry.
\<close>

theorem more_tokens_never_lower:
  assumes "levenshtein q1 (title_norm item) = levenshtein q2 (title_norm item)"
    and "max (length q1) (length (title_norm item)) = max (length q2) (length (title_norm item))"
    and "overlap q2 (title_norm item) \<le> overlap q1 (title_norm item)"
    and "meta_hits q2 (meta item) \<le> meta_hits q1 (meta item)"
  shows "fuzzy_score q2 item \<le> fuzzy_score q1 item"
proof (cases "q2 = [] \<or> title_norm item = []")
  case True
  then show ?thesis
    using fuzzy_score_bounds [of q1 item] by (auto simp: fuzzy_score_def)
next
  case False
  then have q2: "q2 \<noteq> []" and t: "title_norm item \<noteq> []" by simp_all
  have base: "base_score q2 (title_norm item) = base_score q1 (title_norm item)"
    using assms(1,2) by (simp add: base_score_def Let_def)
  have o: "(of_nat (overlap q2 (title_norm item)) :: rat) \<le> of_nat (overlap q1 (title_norm item))"
    using assms(3) by (simp only: of_nat_le_iff)
  have h: "(of_nat (meta_hits q2 (meta item)) :: rat) \<le> of_nat (meta_hits q1 (meta item))"
    using assms(4) by (simp only: of_nat_le_iff)
  have raw: "raw_score q2 item \<le> raw_score q1 item"
    using base o h by (simp add: raw_score_def Let_def)
  show ?thesis
  proof (cases "q1 = []")
    case True
    have "tokens [] = {}" by (simp add: tokens_def split_def)
    then have "overlap q1 (title_norm item) = 0" "meta_hits q1 (meta item) = 0"
      using True by (simp_all add: overlap_def meta_hits_def)
    with assms(3,4) have z: "overlap q2 (title_norm item) = 0" "meta_hits q2 (meta item) = 0"
      by simp_all
    have "levenshtein q1 (title_norm item) = length (title_norm item)"
      using True t by (simp add: levenshtein_def)
    moreover have "max (length q2) (length (title_norm item)) = length (title_norm item)"
      using assms(2) True by simp
    ultimately have "base_score q2 (title_norm item) = 0"
      using assms(1) t by (simp add: base_score_def Let_def)
    with z have "raw_score q2 item = 0" by (simp add: raw_score_def)
    then have "fuzzy_score q2 item = 0" using q2 t by (simp add: fuzzy_score_raw)
    then show ?thesis using True by (simp add: fuzzy_score_def)
  next
    case False
    with q2 t raw show ?thesis by (simp add: fuzzy_score_raw min_def)
  qed
qed

theorem more_tokens_never_lower_witness:
  "levenshtein ''ab cd eg'' (title_norm \<lparr>title = ''Ab Cd Ef'', title_norm = ''ab cd ef'', meta = ''x''\<rparr>)
     = levenshtein ''abxcd ef'' (title_norm \<lparr>title = ''Ab Cd Ef'', title_norm = ''ab cd ef'', meta = ''x''\<rparr>)
   \<and> overlap ''abxcd ef'' ''ab cd ef'' < overlap ''ab cd eg'' ''ab cd ef''
   \<and> fuzzy_score ''abxcd ef'' \<lparr>title = ''Ab Cd Ef'', title_norm = ''ab cd ef'', meta = ''x''\<rparr>
       \<le> fuzzy_score ''ab cd eg'' \<lparr>title = ''Ab Cd Ef'', title_norm = ''ab cd ef'', meta = ''x''\<rparr>"
proof -
  let ?item = "\<lparr>title = ''Ab Cd Ef'', title_norm = ''ab cd ef'', meta = ''x''\<rparr>"
  have a: "levenshtein ''ab cd eg'' (title_norm ?item) = levenshtein ''abxcd ef'' (title_norm ?item)"
    by code_simp
  have b: "max (length ''ab cd eg'') (length (title_norm ?item))
      = max (length ''abxcd ef'') (length (title_norm ?item))" by simp
  have c: "overlap ''abxcd ef'' (title_norm ?item) \<le> overlap ''ab cd eg'' (title_norm ?item)"
    by code_simp
  have d: "meta_hits ''abxcd ef'' (meta ?item) \<le> meta_hits ''ab cd eg'' (meta ?item)"
    by code_simp
  have e: "overlap ''abxcd ef'' ''ab cd ef'' < overlap ''ab cd eg'' ''ab cd ef''"
    by code_simp
  from more_tokens_never_lower [OF a b c d] a e show ?thesis by simp
qed

theorem more_tokens_scores_lower:
  "levenshtein ''ab j k l'' (title_norm ab_entry) = levenshtein ''a p q rb'' (title_norm ab_entry)
   \<and> max (length ''ab j k l'') (length (title_norm ab_entry))
       = max (length ''a p q rb'') (length (title_norm ab_entry))
   \<and> overlap ''a p q rb'' (title_norm ab_entry) < overlap ''ab j k l'' (title_norm ab_entry)
   \<and> fuzzy_score ''ab j k l'' ab_entry < fuzzy_score ''a p q rb'' ab_entry"
  by code_simp

subsection \<open>Properties of the load step\<close>






subsection \<open>Properties of the limit\<close>

lemma sql_limit_length: "0 \<le> n \<Longrightarrow> length (sql_limit n rows) \<le> nat n"
  by (simp add: sql_limit_def)

lemma sorted_desc_take: "sorted_wrt (\<ge>) xs \<Longrightarrow> sorted_wrt (\<ge>) (take k (xs :: rat list))"
  by (induction xs arbitrary: k) (auto simp: take_Cons' dest: in_set_takeD)

lemma order_by_rating_desc_sorted:
  "sorted_wrt (\<ge>) (map IMDB_Rating (order_by_rating_desc rows))"
proof -
  have "sorted (map (\<lambda>r. - IMDB_Rating r) (order_by_rating_desc rows))"
    unfolding order_by_rating_desc_def by (rule sorted_sort_key)
  then show ?thesis
    by (simp add: sorted_wrt_map)
qed

lemma limited_rows_sorted:
  "sorted_wrt (\<ge>) (map IMDB_Rating (sql_limit n (order_by_rating_desc rows)))"
  using order_by_rating_desc_sorted [of rows]
  by (auto simp: sql_limit_def take_map [symmetric] intro: sorted_desc_take)

lemma projected_ratings:
  "map (\<lambda>p. snd (snd p)) (map (\<lambda>r. (Series_Title r, Released_Year r, IMDB_Rating r)) rows)
     = map IMDB_Rating rows"
  by simp

lemma actor_value_error:
  "c \<noteq> NoFile \<Longrightarrow> py_int limit = Inl ValueError \<Longrightarrow>
     kaggle_movies_with_actor c actor limit = Inl ValueError"
  by (simp add: kaggle_movies_with_actor_def get_connection_def Let_def)

lemma genre_value_error:
  "c \<noteq> NoFile \<Longrightarrow> py_int limit = Inl ValueError \<Longrightarrow>
     kaggle_top_by_genre c genre limit = Inl ValueError"
  by (simp add: kaggle_top_by_genre_def get_connection_def Let_def)

lemma keyword_value_error:
  "c \<noteq> NoFile \<Longrightarrow> py_int limit = Inl ValueError \<Longrightarrow>
     kaggle_search_by_keyword c keyword limit = Inl ValueError"
  by (simp add: kaggle_search_by_keyword_def get_connection_def Let_def)

lemma actor_rows:
  assumes "kaggle_movies_with_actor c actor limit = Inr (Movie_lines a rows)"
    and "py_int limit = Inr n"
  shows "(0 \<le> n \<longrightarrow> length rows \<le> nat n) \<and> sorted_wrt (\<ge>) (map (\<lambda>p. snd (snd p)) rows)"
  using assms sql_limit_length [of n] limited_rows_sorted [of n]
  by (auto simp: kaggle_movies_with_actor_def Let_def projected_ratings bind_integer_def
      simp del: map_map split: option.splits sum.splits if_splits)

lemma genre_rows:
  assumes "kaggle_top_by_genre c genre limit = Inr (Movie_lines a rows)"
    and "py_int limit = Inr n"
  shows "(0 \<le> n \<longrightarrow> length rows \<le> nat n) \<and> sorted_wrt (\<ge>) (map (\<lambda>p. snd (snd p)) rows)"
  using assms sql_limit_length [of n] limited_rows_sorted [of n]
  by (auto simp: kaggle_top_by_genre_def Let_def projected_ratings bind_integer_def
      simp del: map_map split: option.splits sum.splits if_splits)

lemma keyword_rows:
  assumes "kaggle_search_by_keyword c keyword limit = Inr (Movie_lines a rows)"
    and "py_int limit = Inr n" and "0 \<le> n"
  shows "length rows \<le> nat n"
  using assms sql_limit_length [of n]
  by (auto simp: kaggle_search_by_keyword_def Let_def bind_integer_def
      split: option.splits sum.splits if_splits)

lemma py_int_3: "py_int (PyStr ''3'') = Inr 3"
  by code_simp

lemma py_int_abc: "py_int (PyStr ''abc'') = Inl ValueError"
  by code_simp

lemma actor_succeeds:
  "kaggle_movies_with_actor (Table t) actor (PyStr ''3'') \<noteq> Inl e"
  by (simp add: kaggle_movies_with_actor_def get_connection_def fetch_table_def py_int_3
      bind_integer_def Let_def)

lemma genre_succeeds:
  "kaggle_top_by_genre (Table t) genre (PyStr ''3'') \<noteq> Inl e"
  by (simp add: kaggle_top_by_genre_def get_connection_def fetch_table_def py_int_3
      bind_integer_def Let_def)

text \<open>
  Claim C9, amended. When the database file exists, each of the three tools coerces its
  limit with \<^verbatim>\<open>int\<close> before the query runs: a value that cannot be coerced, such as \<^verbatim>\<open>"abc"\<close>,
  raises \<^verbatim>\<open>ValueError\<close>; a coercible string such as \<^verbatim>\<open>"3"\<close> is read as its integer, the actor
  and genre tools then raise nothing on a table, and for a limit that is not negative the
  rows printed are at most that many, in descending order of rating for the actor and genre
  tools.
\<close>

theorem limit_coerced_before_query:
  assumes "c \<noteq> NoFile"
  shows "(py_int limit = Inl ValueError \<longrightarrow>
            kaggle_movies_with_actor c x limit = Inl ValueError
          \<and> kaggle_top_by_genre c x limit = Inl ValueError
          \<and> kaggle_search_by_keyword c x limit = Inl ValueError)
    \<and> (py_int limit = Inr n \<and> 0 \<le> n \<longrightarrow>
          (kaggle_movies_with_actor c x limit = Inr (Movie_lines a rows) \<longrightarrow>
             length rows \<le> nat n \<and> sorted_wrt (\<ge>) (map (\<lambda>p. snd (snd p)) rows))
        \<and> (kaggle_top_by_genre c x limit = Inr (Movie_lines a rows) \<longrightarrow>
             length rows \<le> nat n \<and> sorted_wrt (\<ge>) (map (\<lambda>p. snd (snd p)) rows))
        \<and> (kaggle_search_by_keyword c x limit = Inr (Movie_lines a rows') \<longrightarrow>
             length rows' \<le> nat n))
    \<and> py_int (PyStr ''3'') = Inr 3
    \<and> py_int (PyStr ''abc'') = Inl ValueError
    \<and> (c = Table t \<longrightarrow>
          kaggle_movies_with_actor c x (PyStr ''3'') \<noteq> Inl e
        \<and> kaggle_top_by_genre c x (PyStr ''3'') \<noteq> Inl e)"
proof -
  have v: "py_int limit = Inl ValueError \<longrightarrow>
            kaggle_movies_with_actor c x limit = Inl ValueError
          \<and> kaggle_top_by_genre c x limit = Inl ValueError
          \<and> kaggle_search_by_keyword c x limit = Inl ValueError"
    using assms by (simp add: actor_value_error genre_value_error keyword_value_error)
  have r: "py_int limit = Inr n \<and> 0 \<le> n \<longrightarrow>
          (kaggle_movies_with_actor c x limit = Inr (Movie_lines a rows) \<longrightarrow>
             length rows \<le> nat n \<and> sorted_wrt (\<ge>) (map (\<lambda>p. snd (snd p)) rows))
        \<and> (kaggle_top_by_genre c x limit = Inr (Movie_lines a rows) \<longrightarrow>
             length rows \<le> nat n \<and> sorted_wrt (\<ge>) (map (\<lambda>p. snd (snd p)) rows))
        \<and> (kaggle_search_by_keyword c x limit = Inr (Movie_lines a rows') \<longrightarrow>
             length rows' \<le> nat n)"
    using actor_rows [of c x limit a rows n] genre_rows [of c x limit a rows n]
      keyword_rows [of c x limit a rows' n] by blast
  have s: "c = Table t \<longrightarrow>
          kaggle_movies_with_actor c x (PyStr ''3'') \<noteq> Inl e
        \<and> kaggle_top_by_genre c x (PyStr ''3'') \<noteq> Inl e"
    by (simp add: actor_succeeds genre_succeeds)
  from v r s py_int_3 py_int_abc show ?thesis by blast
qed

theorem limit_coerced_before_query_witness:
  "Table example_rows \<noteq> NoFile
   \<and> py_int (PyStr ''abc'') = Inl ValueError
   \<and> kaggle_movies_with_actor (Table example_rows) ''DiCaprio'' (PyStr ''abc'') = Inl ValueError
   \<and> py_int (PyStr ''3'') = Inr 3 \<and> (0::int) \<le> 3
   \<and> kaggle_movies_with_actor (Table example_rows) ''DiCaprio'' (PyStr ''3'')
       = Inr (Movie_lines ''DiCaprio''
           [(Some ''Inception'', ''2010'', 44 / 5), (Some ''The Departed'', ''2006'', 17 / 2),
            (Some ''Django Unchained'', ''2012'', 42 / 5)])
   \<and> length [(Some ''Inception'', ''2010'', 44 / 5 :: rat), (Some ''The Departed'', ''2006'', 17 / 2),
            (Some ''Django Unchained'', ''2012'', 42 / 5)] \<le> nat 3
   \<and> kaggle_top_by_genre (Table example_rows) ''i'' (PyStr ''3'')
       = Inr (Movie_lines ''i''
           [(Some ''Inception'', ''2010'', 44 / 5), (Some ''The Departed'', ''2006'', 17 / 2)])
   \<and> sorted_wrt (\<ge>) (map (\<lambda>p. snd (snd p))
        [(Some ''Inception'', ''2010'', 44 / 5 :: rat), (Some ''The Departed'', ''2006'', 17 / 2)])
   \<and> kaggle_search_by_keyword (Table example_rows) ''a'' (PyStr ''3'')
       = Inr (Movie_lines ''a''
           [(Some ''Inception'', ''A thief who steals secrets via dreams''),
            (Some ''Django Unchained'', ''A freed slave sets out to rescue his wife''),
            (Some ''The Departed'', ''An undercover cop and a mole'')])
   \<and> kaggle_top_by_genre (Table example_rows) ''i'' (PyStr ''3'') \<noteq> Inl OperationalError"
proof -
  have ne: "Table example_rows \<noteq> NoFile" by simp
  have abc: "py_int (PyStr ''abc'') = Inl ValueError" by code_simp
  have three: "py_int (PyStr ''3'') = Inr 3 \<and> (0::int) \<le> 3" by code_simp
  have actor: "kaggle_movies_with_actor (Table example_rows) ''DiCaprio'' (PyStr ''3'')
       = Inr (Movie_lines ''DiCaprio''
           [(Some ''Inception'', ''2010'', 44 / 5), (Some ''The Departed'', ''2006'', 17 / 2),
            (Some ''Django Unchained'', ''2012'', 42 / 5)])" by code_simp
  have genre: "kaggle_top_by_genre (Table example_rows) ''i'' (PyStr ''3'')
       = Inr (Movie_lines ''i''
           [(Some ''Inception'', ''2010'', 44 / 5), (Some ''The Departed'', ''2006'', 17 / 2)])"
    by code_simp
  have keyword: "kaggle_search_by_keyword (Table example_rows) ''a'' (PyStr ''3'')
       = Inr (Movie_lines ''a''
           [(Some ''Inception'', ''A thief who steals secrets via dreams''),
            (Some ''Django Unchained'', ''A freed slave sets out to rescue his wife''),
            (Some ''The Departed'', ''An undercover cop and a mole'')])" by code_simp
  from limit_coerced_before_query [OF ne, where limit = "PyStr ''abc''" and x = "''DiCaprio''"]
    limit_coerced_before_query [OF ne, where limit = "PyStr ''3''" and n = 3
      and x = "''DiCaprio''" and a = "''DiCaprio''"
      and rows = "[(Some ''Inception'', ''2010'', 44 / 5), (Some ''The Departed'', ''2006'', 17 / 2),
        (Some ''Django Unchained'', ''2012'', 42 / 5)]"]
    limit_coerced_before_query [OF ne, where limit = "PyStr ''3''" and n = 3
      and x = "''i''" and a = "''i''"
      and rows = "[(Some ''Inception'', ''2010'', 44 / 5), (Some ''The Departed'', ''2006'', 17 / 2)]"
      and t = example_rows and e = OperationalError]
    limit_coerced_before_query [OF ne, where limit = "PyStr ''3''" and n = 3
      and x = "''a''" and a = "''a''"
      and rows' = "[(Some ''Inception'', ''A thief who steals secrets via dreams''),
        (Some ''Django Unchained'', ''A freed slave sets out to rescue his wife''),
        (Some ''The Departed'', ''An undercover cop and a mole'')]"]
    ne abc three actor genre keyword
  show ?thesis by simp
qed

theorem limit_ignored_without_file:
  "py_int (PyStr ''abc'') = Inl ValueError
   \<and> kaggle_movies_with_actor NoFile ''DiCaprio'' (PyStr ''abc'') = Inr Unavailable_message
   \<and> kaggle_top_by_genre NoFile ''Crime'' (PyStr ''abc'') = Inr Unavailable_message
   \<and> kaggle_search_by_keyword NoFile ''thief'' (PyStr ''abc'') = Inr Unavailable_message"
  by code_simp

end
